theory Spec2Isabelle
  imports Complex_Main
begin

section \<open>Recital video creator: the synthesis function\<close>

text \<open>
  The development embeds \<^verbatim>\<open>create_video_from_audio_and_image\<close> of
  \<^verbatim>\<open>streamlit_app.py\<close> (lines 22 to 71). The function is glue around MoviePy:
  it opens the audio, builds an image clip of the audio's duration, resizes it to height
  1080, attaches the audio, encodes to a generated path, closes the three clips and
  returns the path; any exception is reported with \<^verbatim>\<open>st.error\<close> and turned into
  \<^verbatim>\<open>None\<close>.

  MoviePy itself is not part of the source. Its behaviour is a parameter of the model
  (the record \<open>moviepy\<close> below): which calls raise, what the decoders read, which width
  a proportional resize derives, and what the encoder does to the file system. The clip
  objects are kept as the terms of the calls that built them.

  The function is embedded twice. \<open>create_video_from_audio_and_image\<close> follows the
  library calls that the claims about files, clips and encoder arguments rest on.
  \<open>create_video_call\<close> adds every other place where the source can raise, and the
  exceptions that \<^verbatim>\<open>except Exception\<close> does not catch; with none of them raised it
  is the first (\<open>create_video_call_no_signals\<close>).
\<close>

subsection \<open>Data\<close>

type_synonym path = string

text \<open>
  What a decoder finds in a file; \<open>Video n f\<close> is a video of \<open>n\<close> frames at
  \<open>f\<close> frames per second.
\<close>

datatype content = Audio rat | Image nat nat | Video nat nat | Other string

type_synonym files = "path \<rightharpoonup> content"

text \<open>
  Exceptions deriving from \<^verbatim>\<open>Exception\<close>. The source tells \<^verbatim>\<open>AttributeError\<close>
  from the rest (lines 37 and 45); \<open>str\<close> is Python's \<^verbatim>\<open>str(e)\<close>.
\<close>

datatype py_exn = AttributeError string | OtherError string

fun str :: "py_exn \<Rightarrow> string" where
  "str (AttributeError m) = m"
| "str (OtherError m) = m"

text \<open>
  Clip objects. \<open>AudioFileClip p d\<close> is the object returned by
  \<^verbatim>\<open>AudioFileClip(p)\<close> whose \<^verbatim>\<open>.duration\<close> is \<open>d\<close>;
  \<open>ImageClip p (w, h) d\<close> is \<^verbatim>\<open>ImageClip(p, duration=d)\<close> for an image of
  \<open>w\<close> by \<open>h\<close> pixels; \<open>Resized c h\<close> is \<^verbatim>\<open>c.resized(height=h)\<close> (or
  \<^verbatim>\<open>c.resize(height=h)\<close>); \<open>WithAudio c a\<close> is \<^verbatim>\<open>c.with_audio(a)\<close> (or
  \<^verbatim>\<open>c.set_audio(a)\<close>).
\<close>

datatype clip =
    AudioFileClip path rat
  | ImageClip path "nat \<times> nat" rat
  | Resized clip nat
  | WithAudio clip clip

text \<open>The arguments of one \<^verbatim>\<open>write_videofile\<close> call (lines 53 to 61).\<close>

record write_args =
  self_clip :: clip
  filename :: path
  fps :: nat
  codec :: string
  audio_codec :: string
  temp_audiofile :: path
  remove_temp :: bool
  logger :: "string option"

text \<open>
  The library. The two decoders read the file system and either raise or return what
  the source reads from them; the four clip methods either raise or succeed;
  \<open>lib_width w h H\<close> is the width the library gives a \<open>w\<close> by \<open>h\<close> frame resized
  to height \<open>H\<close>; the encoder returns the exception it raised, if any, and the file
  system it leaves.
\<close>

record moviepy =
  lib_AudioFileClip :: "files \<Rightarrow> path \<Rightarrow> py_exn + rat"
  lib_ImageClip :: "files \<Rightarrow> path \<Rightarrow> py_exn + nat \<times> nat"
  lib_resized :: "clip \<Rightarrow> nat \<Rightarrow> py_exn option"
  lib_resize :: "clip \<Rightarrow> nat \<Rightarrow> py_exn option"
  lib_with_audio :: "clip \<Rightarrow> clip \<Rightarrow> py_exn option"
  lib_set_audio :: "clip \<Rightarrow> clip \<Rightarrow> py_exn option"
  lib_width :: "nat \<Rightarrow> nat \<Rightarrow> nat \<Rightarrow> nat"
  lib_write_videofile :: "write_args \<Rightarrow> files \<Rightarrow> py_exn option \<times> files"

text \<open>
  The world the call runs in: the file system, the temporary directory, the values
  \<^verbatim>\<open>uuid.uuid4()\<close> returns (the \<open>n\<close>-th call returns \<open>uuid_source n\<close>), the clip
  objects created and not closed, the messages shown by \<^verbatim>\<open>st.error\<close>, and the
  encoder calls made so far.
\<close>

record world =
  files :: files
  gettempdir :: path
  uuid_source :: "nat \<Rightarrow> string"
  uuid_drawn :: nat
  live :: "clip list"
  errors :: "string list"
  encodes :: "write_args list"

subsection \<open>Effects\<close>

definition new_clip :: "clip \<Rightarrow> world \<Rightarrow> world" where
  "new_clip c w = w\<lparr>live := live w @ [c]\<rparr>"

definition close :: "clip \<Rightarrow> world \<Rightarrow> world" where
  "close c w = w\<lparr>live := remove1 c (live w)\<rparr>"

definition st_error :: "string \<Rightarrow> world \<Rightarrow> world" where
  "st_error msg w = w\<lparr>errors := errors w @ [msg]\<rparr>"

definition uuid4 :: "world \<Rightarrow> string \<times> world" where
  "uuid4 w = (uuid_source w (uuid_drawn w), w\<lparr>uuid_drawn := Suc (uuid_drawn w)\<rparr>)"

text \<open>\<^verbatim>\<open>os.path.join\<close> of two components (POSIX).\<close>

definition os_path_join :: "path \<Rightarrow> path \<Rightarrow> path" where
  "os_path_join a b =
     (if b \<noteq> [] \<and> hd b = CHR ''/'' then b
      else if a = [] \<or> last a = CHR ''/'' then a @ b
      else a @ ''/'' @ b)"

text \<open>
  Lines 34 to 39: \<^verbatim>\<open>resized\<close>, and \<^verbatim>\<open>resize\<close> when that raises
  \<^verbatim>\<open>AttributeError\<close>; any other exception leaves the inner \<^verbatim>\<open>try\<close>.
\<close>

definition resized_height :: "moviepy \<Rightarrow> clip \<Rightarrow> nat \<Rightarrow> py_exn + clip" where
  "resized_height lib c h =
     (case lib_resized lib c h of
        None \<Rightarrow> Inr (Resized c h)
      | Some (AttributeError m) \<Rightarrow>
          (case lib_resize lib c h of
             None \<Rightarrow> Inr (Resized c h)
           | Some e \<Rightarrow> Inl e)
      | Some (OtherError m) \<Rightarrow> Inl (OtherError m))"

text \<open>Lines 42 to 47: \<^verbatim>\<open>with_audio\<close>, and \<^verbatim>\<open>set_audio\<close> on \<^verbatim>\<open>AttributeError\<close>.\<close>

definition with_audio :: "moviepy \<Rightarrow> clip \<Rightarrow> clip \<Rightarrow> py_exn + clip" where
  "with_audio lib c a =
     (case lib_with_audio lib c a of
        None \<Rightarrow> Inr (WithAudio c a)
      | Some (AttributeError m) \<Rightarrow>
          (case lib_set_audio lib c a of
             None \<Rightarrow> Inr (WithAudio c a)
           | Some e \<Rightarrow> Inl e)
      | Some (OtherError m) \<Rightarrow> Inl (OtherError m))"

text \<open>One encoder call: the library acts on the file system; the call is logged.\<close>

definition write_videofile :: "moviepy \<Rightarrow> write_args \<Rightarrow> world \<Rightarrow> py_exn option \<times> world" where
  "write_videofile lib req w =
     (case lib_write_videofile lib req (files w) of
        (r, fs) \<Rightarrow> (r, w\<lparr>files := fs, encodes := encodes w @ [req]\<rparr>))"

subsection \<open>The function\<close>

text \<open>
  The body of the outer \<^verbatim>\<open>try\<close> (lines 25 to 68): \<open>Inl e\<close> when \<open>e\<close> leaves it,
  \<open>Inr output_path\<close> when line 68 returns. The spinner of line 25 only draws.
\<close>

definition try_body :: "moviepy \<Rightarrow> path \<Rightarrow> path \<Rightarrow> world \<Rightarrow> (py_exn + path) \<times> world" where
  "try_body lib audio_path image_path w0 =
     (case lib_AudioFileClip lib (files w0) audio_path of
        Inl e \<Rightarrow> (Inl e, w0)
      | Inr d \<Rightarrow>
         (let audio_clip = AudioFileClip audio_path d;
              w1 = new_clip audio_clip w0
          in case lib_ImageClip lib (files w1) image_path of
               Inl e \<Rightarrow> (Inl e, w1)
             | Inr sz \<Rightarrow>
                (let loaded = ImageClip image_path sz d;
                     w2 = new_clip loaded w1
                 in case resized_height lib loaded 1080 of
                      Inl e \<Rightarrow> (Inl e, w2)
                    | Inr image_clip \<Rightarrow>
                       (let w3 = new_clip image_clip w2
                        in case with_audio lib image_clip audio_clip of
                             Inl e \<Rightarrow> (Inl e, w3)
                           | Inr final_video \<Rightarrow>
                              (let w4 = new_clip final_video w3;
                                   (u1, w5) = uuid4 w4;
                                   output_path =
                                     os_path_join (gettempdir w5) (''video_'' @ u1 @ ''.mp4'');
                                   (u2, w6) = uuid4 w5;
                                   req = \<lparr>self_clip = final_video,
                                          filename = output_path,
                                          fps = 24,
                                          codec = ''libx264'',
                                          audio_codec = ''aac'',
                                          temp_audiofile = ''temp-audio-'' @ u2 @ ''.m4a'',
                                          remove_temp = True,
                                          logger = None\<rparr>
                               in case write_videofile lib req w6 of
                                    (Some e, w7) \<Rightarrow> (Inl e, w7)
                                  | (None, w7) \<Rightarrow>
                                      (Inr output_path,
                                       close final_video
                                         (close image_clip (close audio_clip w7))))))))"

text \<open>Lines 24 and 69 to 71: the handler reports the exception and returns \<^verbatim>\<open>None\<close>.\<close>

definition create_video_from_audio_and_image ::
    "moviepy \<Rightarrow> path \<Rightarrow> path \<Rightarrow> world \<Rightarrow> path option \<times> world" where
  "create_video_from_audio_and_image lib audio_path image_path w =
     (case try_body lib audio_path image_path w of
        (Inr output_path, w') \<Rightarrow> (Some output_path, w')
      | (Inl e, w') \<Rightarrow> (None, st_error (''Video creation failed: '' @ str e) w'))"

subsection \<open>Reading a clip\<close>

text \<open>
  What the library's clip objects stand for, read off the calls that built them: a
  resize and an attached audio track leave the duration and the picture alone, a resize
  to height \<open>H\<close> gives the height \<open>H\<close> and the width the library derives.
\<close>

fun clip_duration :: "clip \<Rightarrow> rat" where
  "clip_duration (AudioFileClip p d) = d"
| "clip_duration (ImageClip p sz d) = d"
| "clip_duration (Resized c h) = clip_duration c"
| "clip_duration (WithAudio c a) = clip_duration c"

fun still_image :: "clip \<Rightarrow> path option" where
  "still_image (AudioFileClip p d) = None"
| "still_image (ImageClip p sz d) = Some p"
| "still_image (Resized c h) = still_image c"
| "still_image (WithAudio c a) = still_image c"

fun audio_track :: "clip \<Rightarrow> clip option" where
  "audio_track (AudioFileClip p d) = None"
| "audio_track (ImageClip p sz d) = None"
| "audio_track (Resized c h) = audio_track c"
| "audio_track (WithAudio c a) = Some a"

fun frame_size :: "moviepy \<Rightarrow> clip \<Rightarrow> (nat \<times> nat) option" where
  "frame_size lib (AudioFileClip p d) = None"
| "frame_size lib (ImageClip p sz d) = Some sz"
| "frame_size lib (Resized c H) =
     (case frame_size lib c of
        None \<Rightarrow> None
      | Some (w, h) \<Rightarrow> Some (lib_width lib w h H, H))"
| "frame_size lib (WithAudio c a) = frame_size lib c"

text \<open>
  The width the specification states for a \<open>w\<close> by \<open>h\<close> image: \<open>w * 1080 / h\<close>
  rounded to the nearest even integer.
\<close>

definition spec_width :: "nat \<Rightarrow> nat \<Rightarrow> int" where
  "spec_width w h = 2 * round (of_nat w * 1080 / of_nat h / (2 :: rat))"

text \<open>
  The arguments the source passes to the encoder for the inputs \<open>audio_path\<close> and
  \<open>image_path\<close>, when the audio decodes to duration \<open>d\<close> and the image to size
  \<open>sz\<close>, in a world \<open>w\<close> (lines 27 to 61 put together; used to state lemmas).
\<close>

definition encode_request :: "path \<Rightarrow> path \<Rightarrow> rat \<Rightarrow> nat \<times> nat \<Rightarrow> world \<Rightarrow> write_args" where
  "encode_request audio_path image_path d sz w =
     \<lparr>self_clip =
        WithAudio (Resized (ImageClip image_path sz d) 1080) (AudioFileClip audio_path d),
      filename =
        os_path_join (gettempdir w) (''video_'' @ uuid_source w (uuid_drawn w) @ ''.mp4''),
      fps = 24,
      codec = ''libx264'',
      audio_codec = ''aac'',
      temp_audiofile = ''temp-audio-'' @ uuid_source w (Suc (uuid_drawn w)) @ ''.m4a'',
      remove_temp = True,
      logger = None\<rparr>"

text \<open>
  The world once the four clips exist and the two identifiers are drawn (lines 27 to
  58), before the encoder runs.
\<close>

definition composed :: "path \<Rightarrow> path \<Rightarrow> rat \<Rightarrow> nat \<times> nat \<Rightarrow> world \<Rightarrow> world" where
  "composed audio_path image_path d sz w =
     w\<lparr>live := live w @
          [AudioFileClip audio_path d,
           ImageClip image_path sz d,
           Resized (ImageClip image_path sz d) 1080,
           WithAudio (Resized (ImageClip image_path sz d) 1080) (AudioFileClip audio_path d)],
       uuid_drawn := Suc (Suc (uuid_drawn w))\<rparr>"

subsection \<open>Libraries and a session to run the function in\<close>

definition decode_audio :: "files \<Rightarrow> path \<Rightarrow> py_exn + rat" where
  "decode_audio fs p =
     (case fs p of
        Some (Audio d) \<Rightarrow> Inr d
      | Some _ \<Rightarrow> Inl (OtherError ''failed to read the duration of the file'')
      | None \<Rightarrow> Inl (OtherError ''the file could not be found''))"

definition decode_image :: "files \<Rightarrow> path \<Rightarrow> py_exn + nat \<times> nat" where
  "decode_image fs p =
     (case fs p of
        Some (Image w h) \<Rightarrow> Inr (w, h)
      | Some _ \<Rightarrow> Inl (OtherError ''cannot identify image file'')
      | None \<Rightarrow> Inl (OtherError ''the file could not be found''))"

text \<open>A resize that truncates the derived width, \<^verbatim>\<open>int(w * H / h)\<close>.\<close>

definition truncated_width :: "nat \<Rightarrow> nat \<Rightarrow> nat \<Rightarrow> nat" where
  "truncated_width w h H = w * H div h"

text \<open>An encoder that writes the output and leaves no temporary file.\<close>

definition encode_ok :: "write_args \<Rightarrow> files \<Rightarrow> py_exn option \<times> files" where
  "encode_ok req fs = (None, fs(filename req \<mapsto> Other ''mp4''))"

text \<open>
  An encoder that has written the temporary audio file and part of the output when
  the disk fills up.
\<close>

definition encode_disk_full :: "write_args \<Rightarrow> files \<Rightarrow> py_exn option \<times> files" where
  "encode_disk_full req fs =
     (Some (OtherError ''No space left on device''),
      fs(temp_audiofile req \<mapsto> Other ''aac'', filename req \<mapsto> Other ''partial''))"

text \<open>MoviePy 2: \<^verbatim>\<open>resized\<close> and \<^verbatim>\<open>with_audio\<close> exist, the old names do not.\<close>

definition moviepy_v2 :: moviepy where
  "moviepy_v2 =
     \<lparr>lib_AudioFileClip = decode_audio,
      lib_ImageClip = decode_image,
      lib_resized = (\<lambda>c h. None),
      lib_resize = (\<lambda>c h. Some (AttributeError ''no attribute resize'')),
      lib_with_audio = (\<lambda>c a. None),
      lib_set_audio = (\<lambda>c a. Some (AttributeError ''no attribute set_audio'')),
      lib_width = truncated_width,
      lib_write_videofile = encode_ok\<rparr>"

text \<open>MoviePy 1: only the old names exist.\<close>

definition moviepy_v1 :: moviepy where
  "moviepy_v1 =
     \<lparr>lib_AudioFileClip = decode_audio,
      lib_ImageClip = decode_image,
      lib_resized = (\<lambda>c h. Some (AttributeError ''no attribute resized'')),
      lib_resize = (\<lambda>c h. None),
      lib_with_audio = (\<lambda>c a. Some (AttributeError ''no attribute with_audio'')),
      lib_set_audio = (\<lambda>c a. None),
      lib_width = truncated_width,
      lib_write_videofile = encode_ok\<rparr>"

definition moviepy_disk_full :: moviepy where
  "moviepy_disk_full = moviepy_v2\<lparr>lib_write_videofile := encode_disk_full\<rparr>"

text \<open>An audio decoder that fails with the message the disk-full encoder gives.\<close>

definition moviepy_no_audio :: moviepy where
  "moviepy_no_audio =
     moviepy_v2\<lparr>lib_AudioFileClip := (\<lambda>fs p. Inl (OtherError ''No space left on device''))\<rparr>"

text \<open>
  An encoder that samples the clip at the requested rate: one frame for every started
  interval of \<open>1 / fps\<close> seconds.
\<close>

definition encode_frames :: "write_args \<Rightarrow> files \<Rightarrow> py_exn option \<times> files" where
  "encode_frames req fs =
     (if clip_duration (self_clip req) < 0 then (Some (OtherError ''negative duration''), fs)
      else (None,
            fs(filename req \<mapsto>
                 Video (nat \<lceil>clip_duration (self_clip req) * of_nat (fps req)\<rceil>) (fps req))))"

definition moviepy_frames :: moviepy where
  "moviepy_frames = moviepy_v2\<lparr>lib_write_videofile := encode_frames\<rparr>"

definition session :: world where
  "session =
     \<lparr>files = [''/tmp/a.wav'' \<mapsto> Audio 10,
               ''/tmp/i.png'' \<mapsto> Image 800 600,
               ''/tmp/odd.png'' \<mapsto> Image 801 600,
               ''/tmp/bad.png'' \<mapsto> Other ''GIF''],
      gettempdir = ''/tmp'',
      uuid_source = (\<lambda>n. replicate (Suc n) CHR ''a''),
      uuid_drawn = 0,
      live = [],
      errors = [],
      encodes = []\<rparr>"

subsection \<open>The call with every raise\<close>

text \<open>
  The function above lets five library calls raise, and only exceptions that derive
  from \<^verbatim>\<open>Exception\<close>. The second embedding below drops both limits. Every call the
  source makes is a site, in source order: entering the spinner (line 25), the two
  decoders (27, 30), the resize and audio methods (36, 39, 44, 47),
  \<^verbatim>\<open>tempfile.gettempdir()\<close> and the two \<^verbatim>\<open>uuid.uuid4()\<close> (50, 58), the encoder
  (53), the three \<^verbatim>\<open>close()\<close> (64 to 66), leaving the spinner, and
  \<^verbatim>\<open>st.error\<close> in the handler (70).
\<close>

datatype site =
    SpinnerEnter | AudioOpen | ImageOpen | ResizedCall | ResizeCall | WithAudioCall
  | SetAudioCall | GetTempDir | Uuid4Output | Uuid4Temp | WriteVideofile
  | CloseAudio | CloseImage | CloseFinal | SpinnerExit | StError

text \<open>
  \<open>Exc e\<close> derives from \<^verbatim>\<open>Exception\<close>; \<open>BaseExc name\<close> does not
  (\<^verbatim>\<open>KeyboardInterrupt\<close>, \<^verbatim>\<open>SystemExit\<close>, Streamlit's \<^verbatim>\<open>StopException\<close>
  and \<^verbatim>\<open>RerunException\<close>), so \<^verbatim>\<open>except Exception\<close> lets it pass.
\<close>

datatype raised = Exc py_exn | BaseExc string

text \<open>How a call ends: it returns a value, or an exception reaches the caller.\<close>

datatype outcome = Returned "path option" | Raised raised

text \<open>
  \<open>sig s = Some x\<close>: the call at site \<open>s\<close> raises \<open>x\<close> in place of its work.
  Otherwise the call behaves as the library says.
\<close>

type_synonym signals = "site \<Rightarrow> raised option"

definition call :: "signals \<Rightarrow> site \<Rightarrow> py_exn + 'a \<Rightarrow> raised + 'a" where
  "call sig s r =
     (case sig s of
        Some x \<Rightarrow> Inl x
      | None \<Rightarrow> (case r of Inl e \<Rightarrow> Inl (Exc e) | Inr v \<Rightarrow> Inr v))"

definition raises :: "py_exn option \<Rightarrow> py_exn + unit" where
  "raises r = (case r of None \<Rightarrow> Inr () | Some e \<Rightarrow> Inl e)"

text \<open>Lines 34 to 39 and 42 to 47, with the sites.\<close>

definition resized_height_full :: "signals \<Rightarrow> moviepy \<Rightarrow> clip \<Rightarrow> nat \<Rightarrow> raised + clip" where
  "resized_height_full sig lib c h =
     (case call sig ResizedCall (raises (lib_resized lib c h)) of
        Inr u \<Rightarrow> Inr (Resized c h)
      | Inl (Exc (AttributeError m)) \<Rightarrow>
          (case call sig ResizeCall (raises (lib_resize lib c h)) of
             Inr u \<Rightarrow> Inr (Resized c h)
           | Inl x \<Rightarrow> Inl x)
      | Inl x \<Rightarrow> Inl x)"

definition with_audio_full :: "signals \<Rightarrow> moviepy \<Rightarrow> clip \<Rightarrow> clip \<Rightarrow> raised + clip" where
  "with_audio_full sig lib c a =
     (case call sig WithAudioCall (raises (lib_with_audio lib c a)) of
        Inr u \<Rightarrow> Inr (WithAudio c a)
      | Inl (Exc (AttributeError m)) \<Rightarrow>
          (case call sig SetAudioCall (raises (lib_set_audio lib c a)) of
             Inr u \<Rightarrow> Inr (WithAudio c a)
           | Inl x \<Rightarrow> Inl x)
      | Inl x \<Rightarrow> Inl x)"

text \<open>Lines 64 to 66.\<close>

definition close_clips ::
    "signals \<Rightarrow> clip \<Rightarrow> clip \<Rightarrow> clip \<Rightarrow> world \<Rightarrow> (raised + unit) \<times> world" where
  "close_clips sig audio_clip image_clip final_video w =
     (case sig CloseAudio of
        Some x \<Rightarrow> (Inl x, w)
      | None \<Rightarrow>
         (case sig CloseImage of
            Some x \<Rightarrow> (Inl x, close audio_clip w)
          | None \<Rightarrow>
             (case sig CloseFinal of
                Some x \<Rightarrow> (Inl x, close image_clip (close audio_clip w))
              | None \<Rightarrow>
                 (Inr (), close final_video (close image_clip (close audio_clip w))))))"

text \<open>Lines 50 to 68.\<close>

definition write_and_close ::
    "signals \<Rightarrow> moviepy \<Rightarrow> clip \<Rightarrow> clip \<Rightarrow> clip \<Rightarrow> world \<Rightarrow> (raised + path) \<times> world" where
  "write_and_close sig lib audio_clip image_clip final_video w4 =
     (case call sig GetTempDir (Inr (gettempdir w4)) of
        Inl x \<Rightarrow> (Inl x, w4)
      | Inr tmp \<Rightarrow>
         (case sig Uuid4Output of
            Some x \<Rightarrow> (Inl x, w4)
          | None \<Rightarrow>
             (let (u1, w5) = uuid4 w4;
                  output_path = os_path_join tmp (''video_'' @ u1 @ ''.mp4'')
              in case sig Uuid4Temp of
                   Some x \<Rightarrow> (Inl x, w5)
                 | None \<Rightarrow>
                    (let (u2, w6) = uuid4 w5;
                         req = \<lparr>self_clip = final_video,
                                filename = output_path,
                                fps = 24,
                                codec = ''libx264'',
                                audio_codec = ''aac'',
                                temp_audiofile = ''temp-audio-'' @ u2 @ ''.m4a'',
                                remove_temp = True,
                                logger = None\<rparr>
                     in case sig WriteVideofile of
                          Some x \<Rightarrow> (Inl x, w6)
                        | None \<Rightarrow>
                           (case write_videofile lib req w6 of
                              (Some e, w7) \<Rightarrow> (Inl (Exc e), w7)
                            | (None, w7) \<Rightarrow>
                               (case close_clips sig audio_clip image_clip final_video w7 of
                                  (Inl x, w8) \<Rightarrow> (Inl x, w8)
                                | (Inr u, w8) \<Rightarrow> (Inr output_path, w8)))))))"

text \<open>Lines 26 to 68, the block under the spinner.\<close>

definition with_block :: "signals \<Rightarrow> moviepy \<Rightarrow> path \<Rightarrow> path \<Rightarrow> world \<Rightarrow> (raised + path) \<times> world" where
  "with_block sig lib audio_path image_path w0 =
     (case call sig AudioOpen (lib_AudioFileClip lib (files w0) audio_path) of
        Inl x \<Rightarrow> (Inl x, w0)
      | Inr d \<Rightarrow>
         (let audio_clip = AudioFileClip audio_path d;
              w1 = new_clip audio_clip w0
          in case call sig ImageOpen (lib_ImageClip lib (files w1) image_path) of
               Inl x \<Rightarrow> (Inl x, w1)
             | Inr sz \<Rightarrow>
                (let loaded = ImageClip image_path sz d;
                     w2 = new_clip loaded w1
                 in case resized_height_full sig lib loaded 1080 of
                      Inl x \<Rightarrow> (Inl x, w2)
                    | Inr image_clip \<Rightarrow>
                       (let w3 = new_clip image_clip w2
                        in case with_audio_full sig lib image_clip audio_clip of
                             Inl x \<Rightarrow> (Inl x, w3)
                           | Inr final_video \<Rightarrow>
                               write_and_close sig lib audio_clip image_clip final_video
                                 (new_clip final_video w3)))))"

text \<open>
  Line 25: the spinner is entered, the block runs, and the spinner is left on every way
  out of the block; an exception raised while leaving replaces the block's.
\<close>

definition try_body_full :: "signals \<Rightarrow> moviepy \<Rightarrow> path \<Rightarrow> path \<Rightarrow> world \<Rightarrow> (raised + path) \<times> world" where
  "try_body_full sig lib audio_path image_path w =
     (case sig SpinnerEnter of
        Some x \<Rightarrow> (Inl x, w)
      | None \<Rightarrow>
         (case with_block sig lib audio_path image_path w of
            (r, w') \<Rightarrow>
              (case sig SpinnerExit of
                 Some y \<Rightarrow> (Inl y, w')
               | None \<Rightarrow> (r, w'))))"

text \<open>
  Lines 24 and 69 to 71: only an exception deriving from \<^verbatim>\<open>Exception\<close> enters the
  handler, and \<^verbatim>\<open>st.error\<close> is called outside the \<^verbatim>\<open>try\<close>.
\<close>

definition create_video_call ::
    "signals \<Rightarrow> moviepy \<Rightarrow> path \<Rightarrow> path \<Rightarrow> world \<Rightarrow> outcome \<times> world" where
  "create_video_call sig lib audio_path image_path w =
     (case try_body_full sig lib audio_path image_path w of
        (Inr output_path, w') \<Rightarrow> (Returned (Some output_path), w')
      | (Inl (Exc e), w') \<Rightarrow>
          (case sig StError of
             Some x \<Rightarrow> (Raised x, w')
           | None \<Rightarrow> (Returned None, st_error (''Video creation failed: '' @ str e) w'))
      | (Inl (BaseExc n), w') \<Rightarrow> (Raised (BaseExc n), w'))"

text \<open>
  Signals: none; a rerun request met by \<^verbatim>\<open>st.error\<close> in the handler; a rerun
  request met when the spinner is left.
\<close>

definition no_signals :: signals where
  "no_signals = (\<lambda>s. None)"



section \<open>The runs of the function\<close>

lemma resized_height_Inr: "resized_height lib c h = Inr c' \<Longrightarrow> c' = Resized c h"
  by (simp add: resized_height_def split: option.splits py_exn.splits)

lemma with_audio_Inr: "with_audio lib c a = Inr c' \<Longrightarrow> c' = WithAudio c a"
  by (simp add: with_audio_def split: option.splits py_exn.splits)

lemma try_body_audio_raises:
  "lib_AudioFileClip lib (files w) a = Inl e \<Longrightarrow> try_body lib a i w = (Inl e, w)"
  by (simp add: try_body_def)

lemma try_body_image_raises:
  "lib_AudioFileClip lib (files w) a = Inr d \<Longrightarrow> lib_ImageClip lib (files w) i = Inl e \<Longrightarrow>
   try_body lib a i w = (Inl e, new_clip (AudioFileClip a d) w)"
  by (simp add: try_body_def new_clip_def)

lemma try_body_resize_raises:
  "lib_AudioFileClip lib (files w) a = Inr d \<Longrightarrow> lib_ImageClip lib (files w) i = Inr sz \<Longrightarrow>
   resized_height lib (ImageClip i sz d) 1080 = Inl e \<Longrightarrow>
   try_body lib a i w =
     (Inl e, new_clip (ImageClip i sz d) (new_clip (AudioFileClip a d) w))"
  by (simp add: try_body_def new_clip_def)

lemma try_body_with_audio_raises:
  "lib_AudioFileClip lib (files w) a = Inr d \<Longrightarrow> lib_ImageClip lib (files w) i = Inr sz \<Longrightarrow>
   resized_height lib (ImageClip i sz d) 1080 = Inr c \<Longrightarrow>
   with_audio lib c (AudioFileClip a d) = Inl e \<Longrightarrow>
   try_body lib a i w =
     (Inl e, new_clip c (new_clip (ImageClip i sz d) (new_clip (AudioFileClip a d) w)))"
  by (simp add: try_body_def new_clip_def)

lemma try_body_encoded:
  assumes "lib_AudioFileClip lib (files w) a = Inr d" "lib_ImageClip lib (files w) i = Inr sz"
    "resized_height lib (ImageClip i sz d) 1080 = Inr c"
    "with_audio lib c (AudioFileClip a d) = Inr f"
    "lib_write_videofile lib (encode_request a i d sz w) (files w) = (r, fs)"
  shows "try_body lib a i w =
     (case r of
        Some e \<Rightarrow> (Inl e, (composed a i d sz w)\<lparr>files := fs, encodes := encodes w @ [encode_request a i d sz w]\<rparr>)
      | None \<Rightarrow> (Inr (filename (encode_request a i d sz w)),
           close f (close c (close (AudioFileClip a d)
             ((composed a i d sz w)\<lparr>files := fs, encodes := encodes w @ [encode_request a i d sz w]\<rparr>)))))"
proof -
  have c: "c = Resized (ImageClip i sz d) 1080" using assms(3) by (rule resized_height_Inr)
  have f: "f = WithAudio (Resized (ImageClip i sz d) 1080) (AudioFileClip a d)"
    using assms(4) c with_audio_Inr by blast
  show ?thesis using assms(1,2,5) assms(3,4)[unfolded c f]
    by (simp add: try_body_def new_clip_def uuid4_def write_videofile_def encode_request_def composed_def c f Let_def
         split: option.splits)
qed

text \<open>Every run of the body is one of six.\<close>

lemma try_body_cases:
  obtains
    (audio) e where "lib_AudioFileClip lib (files w) a = Inl e"
      "try_body lib a i w = (Inl e, w)"
  | (image) d e where "lib_AudioFileClip lib (files w) a = Inr d"
      "lib_ImageClip lib (files w) i = Inl e"
      "try_body lib a i w = (Inl e, new_clip (AudioFileClip a d) w)"
  | (resize) d sz e where "lib_AudioFileClip lib (files w) a = Inr d"
      "lib_ImageClip lib (files w) i = Inr sz"
      "try_body lib a i w =
         (Inl e, new_clip (ImageClip i sz d) (new_clip (AudioFileClip a d) w))"
  | (attach) d sz e where "lib_AudioFileClip lib (files w) a = Inr d"
      "lib_ImageClip lib (files w) i = Inr sz"
      "try_body lib a i w =
         (Inl e, new_clip (Resized (ImageClip i sz d) 1080)
                   (new_clip (ImageClip i sz d) (new_clip (AudioFileClip a d) w)))"
  | (encode) d sz e fs where "lib_AudioFileClip lib (files w) a = Inr d"
      "lib_ImageClip lib (files w) i = Inr sz"
      "lib_write_videofile lib (encode_request a i d sz w) (files w) = (Some e, fs)"
      "try_body lib a i w =
         (Inl e, (composed a i d sz w)
                   \<lparr>files := fs, encodes := encodes w @ [encode_request a i d sz w]\<rparr>)"
  | (success) d sz fs where "lib_AudioFileClip lib (files w) a = Inr d"
      "lib_ImageClip lib (files w) i = Inr sz"
      "lib_write_videofile lib (encode_request a i d sz w) (files w) = (None, fs)"
      "try_body lib a i w =
         (Inr (filename (encode_request a i d sz w)),
          close (WithAudio (Resized (ImageClip i sz d) 1080) (AudioFileClip a d))
            (close (Resized (ImageClip i sz d) 1080)
              (close (AudioFileClip a d)
                ((composed a i d sz w)
                   \<lparr>files := fs, encodes := encodes w @ [encode_request a i d sz w]\<rparr>))))"
proof (cases "lib_AudioFileClip lib (files w) a")
  case (Inl e)
  then show ?thesis using audio try_body_audio_raises by blast
next
  case A: (Inr d)
  show ?thesis
  proof (cases "lib_ImageClip lib (files w) i")
    case (Inl e)
    then show ?thesis using image A try_body_image_raises by blast
  next
    case I: (Inr sz)
    show ?thesis
    proof (cases "resized_height lib (ImageClip i sz d) 1080")
      case (Inl e)
      then show ?thesis using resize A I try_body_resize_raises by blast
    next
      case R: (Inr c)
      then have c: "c = Resized (ImageClip i sz d) 1080" by (rule resized_height_Inr)
      show ?thesis
      proof (cases "with_audio lib c (AudioFileClip a d)")
        case (Inl e)
        then show ?thesis using attach [OF A I] try_body_with_audio_raises [OF A I R] c by simp
      next
        case F: (Inr f)
        then have f: "f = WithAudio (Resized (ImageClip i sz d) 1080) (AudioFileClip a d)"
          using c with_audio_Inr by blast
        obtain r fs where W: "lib_write_videofile lib (encode_request a i d sz w) (files w) = (r, fs)"
          by (cases "lib_write_videofile lib (encode_request a i d sz w) (files w)")
        note B = try_body_encoded [OF A I R F W]
        show ?thesis
        proof (cases r)
          case None
          then show ?thesis using success [OF A I] W B c f by simp
        next
          case (Some e)
          then show ?thesis using encode [OF A I] W B by simp
        qed
      qed
    qed
  qed
qed

text \<open>What closing, creating and reporting leave untouched.\<close>

lemma close_fields [simp]:
  "files (close c w) = files w" "encodes (close c w) = encodes w"
  "errors (close c w) = errors w" "uuid_drawn (close c w) = uuid_drawn w"
  "uuid_source (close c w) = uuid_source w" "gettempdir (close c w) = gettempdir w"
  by (simp_all add: close_def)

lemma new_clip_fields [simp]:
  "files (new_clip c w) = files w" "encodes (new_clip c w) = encodes w"
  "errors (new_clip c w) = errors w" "uuid_drawn (new_clip c w) = uuid_drawn w"
  "live (new_clip c w) = live w @ [c]"
  by (simp_all add: new_clip_def)

lemma st_error_fields [simp]:
  "files (st_error m w) = files w" "encodes (st_error m w) = encodes w"
  "errors (st_error m w) = errors w @ [m]" "uuid_drawn (st_error m w) = uuid_drawn w"
  "live (st_error m w) = live w"
  by (simp_all add: st_error_def)

lemma composed_fields [simp]:
  "files (composed a i d sz w) = files w" "encodes (composed a i d sz w) = encodes w"
  "errors (composed a i d sz w) = errors w"
  "uuid_drawn (composed a i d sz w) = Suc (Suc (uuid_drawn w))"
  "uuid_source (composed a i d sz w) = uuid_source w"
  "gettempdir (composed a i d sz w) = gettempdir w"
  by (simp_all add: composed_def)

lemma encode_request_fields [simp]:
  "self_clip (encode_request a i d sz w) =
     WithAudio (Resized (ImageClip i sz d) 1080) (AudioFileClip a d)"
  "filename (encode_request a i d sz w) =
     os_path_join (gettempdir w) (''video_'' @ uuid_source w (uuid_drawn w) @ ''.mp4'')"
  "fps (encode_request a i d sz w) = 24"
  "codec (encode_request a i d sz w) = ''libx264''"
  "audio_codec (encode_request a i d sz w) = ''aac''"
  "temp_audiofile (encode_request a i d sz w) =
     ''temp-audio-'' @ uuid_source w (Suc (uuid_drawn w)) @ ''.m4a''"
  "remove_temp (encode_request a i d sz w)"
  by (simp_all add: encode_request_def)

text \<open>A returned path: all five library steps went through.\<close>

lemma create_Some:
  assumes "fst (create_video_from_audio_and_image lib a i w) = Some p"
  obtains d sz fs where
    "lib_AudioFileClip lib (files w) a = Inr d"
    "lib_ImageClip lib (files w) i = Inr sz"
    "lib_write_videofile lib (encode_request a i d sz w) (files w) = (None, fs)"
    "p = filename (encode_request a i d sz w)"
    "snd (create_video_from_audio_and_image lib a i w) =
       close (WithAudio (Resized (ImageClip i sz d) 1080) (AudioFileClip a d))
         (close (Resized (ImageClip i sz d) 1080)
           (close (AudioFileClip a d)
             ((composed a i d sz w)
                \<lparr>files := fs, encodes := encodes w @ [encode_request a i d sz w]\<rparr>)))"
proof (cases rule: try_body_cases [of lib w a i])
  case (success d sz fs)
  show ?thesis
  proof (rule that [OF success(1,2,3)])
    show "p = filename (encode_request a i d sz w)"
      using assms success(4) by (simp add: create_video_from_audio_and_image_def)
    show "snd (create_video_from_audio_and_image lib a i w) =
       close (WithAudio (Resized (ImageClip i sz d) 1080) (AudioFileClip a d))
         (close (Resized (ImageClip i sz d) 1080)
           (close (AudioFileClip a d)
             ((composed a i d sz w)
                \<lparr>files := fs, encodes := encodes w @ [encode_request a i d sz w]\<rparr>)))"
      using success(4) by (simp add: create_video_from_audio_and_image_def)
  qed
qed (use assms in \<open>simp_all add: create_video_from_audio_and_image_def\<close>)

text \<open>\<^verbatim>\<open>None\<close>: some step raised; the encoder ran at most once.\<close>

lemma create_None:
  assumes "fst (create_video_from_audio_and_image lib a i w) = None"
  obtains
    (before) e where
      "errors (snd (create_video_from_audio_and_image lib a i w)) =
         errors w @ [''Video creation failed: '' @ str e]"
      "files (snd (create_video_from_audio_and_image lib a i w)) = files w"
      "encodes (snd (create_video_from_audio_and_image lib a i w)) = encodes w"
  | (encoder) e d sz fs where
      "errors (snd (create_video_from_audio_and_image lib a i w)) =
         errors w @ [''Video creation failed: '' @ str e]"
      "lib_AudioFileClip lib (files w) a = Inr d"
      "lib_ImageClip lib (files w) i = Inr sz"
      "lib_write_videofile lib (encode_request a i d sz w) (files w) = (Some e, fs)"
      "files (snd (create_video_from_audio_and_image lib a i w)) = fs"
      "encodes (snd (create_video_from_audio_and_image lib a i w)) =
         encodes w @ [encode_request a i d sz w]"
proof (cases rule: try_body_cases [of lib w a i])
  case (audio e)
  then show ?thesis
    using before [of e] by (simp add: create_video_from_audio_and_image_def)
next
  case (image d e)
  then show ?thesis
    using before [of e] by (simp add: create_video_from_audio_and_image_def)
next
  case (resize d sz e)
  then show ?thesis
    using before [of e] by (simp add: create_video_from_audio_and_image_def)
next
  case (attach d sz e)
  then show ?thesis
    using before [of e] by (simp add: create_video_from_audio_and_image_def)
next
  case (encode d sz e fs)
  then show ?thesis
    using encoder [of e d sz fs] by (simp add: create_video_from_audio_and_image_def)
next
  case (success d sz fs)
  then show ?thesis
    using assms by (simp add: create_video_from_audio_and_image_def)
qed

text \<open>A relative second component is appended to the directory.\<close>

lemma os_path_join_video:
  "os_path_join t (''video_'' @ u) =
     (if t = [] \<or> last t = CHR ''/'' then t else t @ ''/'') @ ''video_'' @ u"
  by (simp add: os_path_join_def)

text \<open>Frame counts between floor and ceiling are within one frame of the duration.\<close>

lemma within_one_frame:
  fixes d :: rat
  assumes "\<lfloor>d * 24\<rfloor> \<le> int n" "int n \<le> \<lceil>d * 24\<rceil>"
  shows "\<bar>of_nat n / 24 - d\<bar> \<le> 1 / 24"
proof -
  have lo: "d * 24 - 1 < of_int \<lfloor>d * 24\<rfloor>" by linarith
  have hi: "of_int \<lceil>d * 24\<rceil> < d * 24 + 1" by linarith
  have a: "of_int \<lfloor>d * 24\<rfloor> \<le> (of_nat n :: rat)"
    using assms(1) by (metis of_int_le_iff of_int_of_nat_eq)
  have b: "(of_nat n :: rat) \<le> of_int \<lceil>d * 24\<rceil>"
    using assms(2) by (metis of_int_le_iff of_int_of_nat_eq)
  from lo hi a b have "\<bar>of_nat n - d * 24\<bar> \<le> (1 :: rat)" by linarith
  then show ?thesis by (simp add: field_simps abs_le_iff)
qed

subsection \<open>The call with every raise\<close>











text \<open>Without signals the call is the function of the first part.\<close>

lemma call_no_signals:
  "call no_signals s r = (case r of Inl e \<Rightarrow> Inl (Exc e) | Inr v \<Rightarrow> Inr v)"
  by (simp add: call_def no_signals_def)

lemma resized_height_full_no_signals:
  "resized_height_full no_signals lib c h =
     (case resized_height lib c h of Inl e \<Rightarrow> Inl (Exc e) | Inr c' \<Rightarrow> Inr c')"
  by (simp add: resized_height_full_def resized_height_def call_no_signals raises_def
      split: option.splits py_exn.splits)

lemma with_audio_full_no_signals:
  "with_audio_full no_signals lib c a =
     (case with_audio lib c a of Inl e \<Rightarrow> Inl (Exc e) | Inr c' \<Rightarrow> Inr c')"
  by (simp add: with_audio_full_def with_audio_def call_no_signals raises_def
      split: option.splits py_exn.splits)

lemma close_clips_no_signals:
  "close_clips no_signals a c f w = (Inr (), close f (close c (close a w)))"
  by (simp add: close_clips_def no_signals_def)

lemma with_block_no_signals:
  "with_block no_signals lib a i w =
     (case try_body lib a i w of
        (Inl e, w') \<Rightarrow> (Inl (Exc e), w')
      | (Inr p, w') \<Rightarrow> (Inr p, w'))"
  by (simp add: with_block_def write_and_close_def try_body_def call_no_signals
      resized_height_full_no_signals with_audio_full_no_signals close_clips_no_signals
      no_signals_def [THEN fun_cong] uuid4_def Let_def
      split: sum.splits prod.splits option.splits)

lemma create_video_call_no_signals:
  "create_video_call no_signals lib a i w =
     (Returned (fst (create_video_from_audio_and_image lib a i w)),
      snd (create_video_from_audio_and_image lib a i w))"
  by (simp add: create_video_call_def try_body_full_def with_block_no_signals
      create_video_from_audio_and_image_def no_signals_def [THEN fun_cong]
      split: sum.splits prod.splits)

lemmas run_defs =
  create_video_from_audio_and_image_def try_body_def resized_height_def with_audio_def
  write_videofile_def uuid4_def new_clip_def close_def st_error_def os_path_join_def
  decode_audio_def decode_image_def encode_ok_def encode_disk_full_def truncated_width_def
  moviepy_v2_def moviepy_v1_def moviepy_disk_full_def moviepy_no_audio_def session_def Let_def

section \<open>The claims\<close>

text \<open>
  C1. Let the encoder sample the clip at the requested rate: a successful call leaves at
  its file name a video of \<open>n\<close> frames at \<open>fps\<close> frames per second, with
  \<open>n\<close> between the floor and the ceiling of duration times \<open>fps\<close>. Then for every
  valid pair of inputs (a call that returns a path), the clip encoded shows the still
  image \<open>image_path\<close>, carries the opened audio clip as its audio track and lasts
  exactly the audio's duration \<open>d\<close>; and the file at the returned path is a video
  at 24 frames per second whose duration \<open>n / 24\<close> is within one frame interval
  (1/24 s) of \<open>d\<close>.
\<close>

theorem output_video_lasts_as_long_as_audio:
  assumes encoder:
      "\<forall>req fs. fst (lib_write_videofile lib req fs) = None \<longrightarrow>
         (\<exists>n. snd (lib_write_videofile lib req fs) (filename req) = Some (Video n (fps req)) \<and>
              \<lfloor>clip_duration (self_clip req) * of_nat (fps req)\<rfloor> \<le> int n \<and>
              int n \<le> \<lceil>clip_duration (self_clip req) * of_nat (fps req)\<rceil>)"
    and success: "fst (create_video_from_audio_and_image lib audio_path image_path w) = Some p"
  shows "\<exists>req d n.
           encodes (snd (create_video_from_audio_and_image lib audio_path image_path w)) =
             encodes w @ [req] \<and>
           filename req = p \<and>
           lib_AudioFileClip lib (files w) audio_path = Inr d \<and>
           still_image (self_clip req) = Some image_path \<and>
           audio_track (self_clip req) = Some (AudioFileClip audio_path d) \<and>
           clip_duration (self_clip req) = d \<and>
           files (snd (create_video_from_audio_and_image lib audio_path image_path w)) p =
             Some (Video n 24) \<and>
           \<bar>of_nat n / 24 - d\<bar> \<le> 1 / 24"
proof -
  from success obtain d sz fs where
    A: "lib_AudioFileClip lib (files w) audio_path = Inr d" and
    W: "lib_write_videofile lib (encode_request audio_path image_path d sz w) (files w) =
          (None, fs)" and
    p: "p = filename (encode_request audio_path image_path d sz w)" and
    s: "snd (create_video_from_audio_and_image lib audio_path image_path w) =
       close (WithAudio (Resized (ImageClip image_path sz d) 1080) (AudioFileClip audio_path d))
         (close (Resized (ImageClip image_path sz d) 1080)
           (close (AudioFileClip audio_path d)
             ((composed audio_path image_path d sz w)
                \<lparr>files := fs,
                  encodes := encodes w @ [encode_request audio_path image_path d sz w]\<rparr>)))"
    by (rule create_Some)
  let ?req = "encode_request audio_path image_path d sz w"
  have e: "encodes (snd (create_video_from_audio_and_image lib audio_path image_path w)) =
          encodes w @ [?req]"
    by (simp add: s)
  have f: "files (snd (create_video_from_audio_and_image lib audio_path image_path w)) = fs"
    by (simp add: s)
  have "fst (lib_write_videofile lib ?req (files w)) = None" using W by simp
  with encoder obtain n where
    n: "snd (lib_write_videofile lib ?req (files w)) (filename ?req) = Some (Video n (fps ?req))"
       "\<lfloor>clip_duration (self_clip ?req) * of_nat (fps ?req)\<rfloor> \<le> int n"
       "int n \<le> \<lceil>clip_duration (self_clip ?req) * of_nat (fps ?req)\<rceil>"
    by blast
  have out: "fs p = Some (Video n 24)" using n(1) W p by simp
  have "\<lfloor>d * 24\<rfloor> \<le> int n" "int n \<le> \<lceil>d * 24\<rceil>" using n(2,3) by simp_all
  then have bound: "\<bar>of_nat n / 24 - d\<bar> \<le> 1 / 24" by (rule within_one_frame)
  from A p e f out bound show ?thesis
    by (intro exI [of _ ?req] exI [of _ d] exI [of _ n]) simp
qed

text \<open>
  C1 on the sample session: a ten-second recording gives 240 frames.
\<close>

theorem output_video_lasts_as_long_as_audio_witness:
  "\<exists>req d n.
     encodes (snd (create_video_from_audio_and_image moviepy_frames ''/tmp/a.wav'' ''/tmp/i.png''
       session)) = encodes session @ [req] \<and>
     filename req = ''/tmp/video_a.mp4'' \<and>
     lib_AudioFileClip moviepy_frames (files session) ''/tmp/a.wav'' = Inr d \<and>
     still_image (self_clip req) = Some ''/tmp/i.png'' \<and>
     audio_track (self_clip req) = Some (AudioFileClip ''/tmp/a.wav'' d) \<and>
     clip_duration (self_clip req) = d \<and>
     files (snd (create_video_from_audio_and_image moviepy_frames ''/tmp/a.wav'' ''/tmp/i.png''
       session)) ''/tmp/video_a.mp4'' = Some (Video n 24) \<and>
     \<bar>of_nat n / 24 - d\<bar> \<le> 1 / 24"
proof -
  have encoder:
      "\<forall>req fs. fst (lib_write_videofile moviepy_frames req fs) = None \<longrightarrow>
         (\<exists>n. snd (lib_write_videofile moviepy_frames req fs) (filename req) =
                Some (Video n (fps req)) \<and>
              \<lfloor>clip_duration (self_clip req) * of_nat (fps req)\<rfloor> \<le> int n \<and>
              int n \<le> \<lceil>clip_duration (self_clip req) * of_nat (fps req)\<rceil>)"
  proof (intro allI impI)
    fix req fs
    assume ok: "fst (lib_write_videofile moviepy_frames req fs) = None"
    let ?x = "clip_duration (self_clip req) * of_nat (fps req)"
    have nonneg: "0 \<le> clip_duration (self_clip req)"
      using ok by (simp add: moviepy_frames_def moviepy_v2_def encode_frames_def split: if_splits)
    then have "0 \<le> ?x" by simp
    then have c: "0 \<le> \<lceil>?x\<rceil>" by (simp add: ceiling_le_iff le_ceiling_iff)
    have fl: "\<lfloor>?x\<rfloor> \<le> \<lceil>?x\<rceil>" by (rule floor_le_ceiling)
    show "\<exists>n. snd (lib_write_videofile moviepy_frames req fs) (filename req) =
                Some (Video n (fps req)) \<and> \<lfloor>?x\<rfloor> \<le> int n \<and> int n \<le> \<lceil>?x\<rceil>"
      using nonneg c fl
      by (intro exI [of _ "nat \<lceil>?x\<rceil>"])
         (simp add: moviepy_frames_def moviepy_v2_def encode_frames_def)
  qed
  have success: "fst (create_video_from_audio_and_image moviepy_frames ''/tmp/a.wav''
      ''/tmp/i.png'' session) = Some ''/tmp/video_a.mp4''"
    by (simp add: run_defs moviepy_frames_def encode_frames_def)
  show ?thesis by (rule output_video_lasts_as_long_as_audio [OF encoder success])
qed

text \<open>
  C2, as stated, fails. With a library whose resize truncates the derived width, an
  801 by 600 image gives a frame of 1441 by 1080, while \<open>801 * 1080 / 600 = 1441.8\<close>
  rounded to the nearest even integer is 1442. The source passes \<^verbatim>\<open>height=1080\<close>
  and nothing else (lines 36 and 39); it does no rounding of its own.
\<close>

theorem scaled_width_nearest_even_counterexample:
  "fst (create_video_from_audio_and_image moviepy_v2 ''/tmp/a.wav'' ''/tmp/odd.png'' session) =
     Some ''/tmp/video_a.mp4'' \<and>
   lib_ImageClip moviepy_v2 (files session) ''/tmp/odd.png'' = Inr (801, 600) \<and>
   frame_size moviepy_v2
     (self_clip (last (encodes (snd (create_video_from_audio_and_image moviepy_v2
        ''/tmp/a.wav'' ''/tmp/odd.png'' session))))) = Some (1441, 1080) \<and>
   spec_width 801 600 = 1442"
proof (intro conjI)
  show "spec_width 801 600 = 1442" by code_simp
qed (simp_all add: run_defs)

text \<open>
  C2, amended. For every valid input image of width \<open>w0\<close> and height \<open>h0\<close>,
  the frame handed to the encoder is the library's resize of the image itself to height
  exactly 1080 (nothing is cropped or padded in between); its width is the one the
  library derives for \<open>w0\<close>, \<open>h0\<close> and the height 1080.
\<close>

theorem scaled_frame_is_library_resize_to_1080:
  assumes "fst (create_video_from_audio_and_image lib audio_path image_path w) = Some p"
  shows "\<exists>req d w0 h0.
           encodes (snd (create_video_from_audio_and_image lib audio_path image_path w)) =
             encodes w @ [req] \<and>
           lib_ImageClip lib (files w) image_path = Inr (w0, h0) \<and>
           self_clip req =
             WithAudio (Resized (ImageClip image_path (w0, h0) d) 1080)
               (AudioFileClip audio_path d) \<and>
           frame_size lib (self_clip req) = Some (lib_width lib w0 h0 1080, 1080)"
proof -
  from assms obtain d sz fs where
    I: "lib_ImageClip lib (files w) image_path = Inr sz" and
    s: "snd (create_video_from_audio_and_image lib audio_path image_path w) =
       close (WithAudio (Resized (ImageClip image_path sz d) 1080) (AudioFileClip audio_path d))
         (close (Resized (ImageClip image_path sz d) 1080)
           (close (AudioFileClip audio_path d)
             ((composed audio_path image_path d sz w)
                \<lparr>files := fs,
                  encodes := encodes w @ [encode_request audio_path image_path d sz w]\<rparr>)))"
    by (rule create_Some)
  obtain w0 h0 where sz: "sz = (w0, h0)" by (cases sz)
  have "encodes (snd (create_video_from_audio_and_image lib audio_path image_path w)) =
          encodes w @ [encode_request audio_path image_path d sz w]"
    by (simp add: s)
  with I sz show ?thesis
    by (intro exI [of _ "encode_request audio_path image_path d sz w"] exI [of _ d]
          exI [of _ w0] exI [of _ h0]) simp
qed

text \<open>
  The amended C2 on an 800 by 600 image, under MoviePy 1 (the \<^verbatim>\<open>resize\<close> branch).
\<close>

theorem scaled_frame_is_library_resize_to_1080_witness:
  "\<exists>req d w0 h0.
     encodes (snd (create_video_from_audio_and_image moviepy_v1 ''/tmp/a.wav'' ''/tmp/i.png''
       session)) = encodes session @ [req] \<and>
     lib_ImageClip moviepy_v1 (files session) ''/tmp/i.png'' = Inr (w0, h0) \<and>
     self_clip req =
       WithAudio (Resized (ImageClip ''/tmp/i.png'' (w0, h0) d) 1080)
         (AudioFileClip ''/tmp/a.wav'' d) \<and>
     frame_size moviepy_v1 (self_clip req) = Some (lib_width moviepy_v1 w0 h0 1080, 1080)"
proof -
  have h: "fst (create_video_from_audio_and_image moviepy_v1 ''/tmp/a.wav'' ''/tmp/i.png''
             session) = Some ''/tmp/video_a.mp4''"
    by (simp add: run_defs)
  show ?thesis by (rule scaled_frame_is_library_resize_to_1080 [OF h])
qed

text \<open>
  C3. Every successful synthesis makes one encoder call, with frame rate 24, video codec
  \<^verbatim>\<open>libx264\<close>, audio codec \<^verbatim>\<open>aac\<close>, and an output file name ending in
  \<^verbatim>\<open>.mp4\<close>, which is the path returned.
\<close>

theorem encodes_with_fixed_parameters:
  assumes "fst (create_video_from_audio_and_image lib audio_path image_path w) = Some p"
  shows "\<exists>req stem.
           encodes (snd (create_video_from_audio_and_image lib audio_path image_path w)) =
             encodes w @ [req] \<and>
           filename req = p \<and>
           p = stem @ ''.mp4'' \<and>
           fps req = 24 \<and>
           codec req = ''libx264'' \<and>
           audio_codec req = ''aac''"
proof -
  from assms obtain d sz fs where
    p: "p = filename (encode_request audio_path image_path d sz w)" and
    s: "snd (create_video_from_audio_and_image lib audio_path image_path w) =
       close (WithAudio (Resized (ImageClip image_path sz d) 1080) (AudioFileClip audio_path d))
         (close (Resized (ImageClip image_path sz d) 1080)
           (close (AudioFileClip audio_path d)
             ((composed audio_path image_path d sz w)
                \<lparr>files := fs,
                  encodes := encodes w @ [encode_request audio_path image_path d sz w]\<rparr>)))"
    by (rule create_Some)
  have e: "encodes (snd (create_video_from_audio_and_image lib audio_path image_path w)) =
          encodes w @ [encode_request audio_path image_path d sz w]"
    by (simp add: s)
  have "p = ((if gettempdir w = [] \<or> last (gettempdir w) = CHR ''/'' then gettempdir w
              else gettempdir w @ ''/'') @ ''video_'' @ uuid_source w (uuid_drawn w)) @ ''.mp4''"
    using p os_path_join_video [of "gettempdir w" "uuid_source w (uuid_drawn w) @ ''.mp4''"]
    by simp
  with e p show ?thesis
    by (intro exI [of _ "encode_request audio_path image_path d sz w"]
          exI [of _ "(if gettempdir w = [] \<or> last (gettempdir w) = CHR ''/'' then gettempdir w
              else gettempdir w @ ''/'') @ ''video_'' @ uuid_source w (uuid_drawn w)"]) simp
qed

text \<open>
  C3 on the sample session.
\<close>

theorem encodes_with_fixed_parameters_witness:
  "\<exists>req stem.
     encodes (snd (create_video_from_audio_and_image moviepy_v2 ''/tmp/a.wav'' ''/tmp/i.png''
       session)) = encodes session @ [req] \<and>
     filename req = ''/tmp/video_a.mp4'' \<and>
     ''/tmp/video_a.mp4'' = stem @ ''.mp4'' \<and>
     fps req = 24 \<and>
     codec req = ''libx264'' \<and>
     audio_codec req = ''aac''"
proof -
  have h: "fst (create_video_from_audio_and_image moviepy_v2 ''/tmp/a.wav'' ''/tmp/i.png''
             session) = Some ''/tmp/video_a.mp4''"
    by (simp add: run_defs)
  show ?thesis by (rule encodes_with_fixed_parameters [OF h])
qed







text \<open>
  C6. The claim asks that every handle opened during the call be released on every exit
  path. On the failure path it is not: with a good audio file and an image that does not
  decode, the audio clip opened on line 27 is still open when the call returns; lines 64
  to 66 close the clips on the success path only.
\<close>

theorem audio_clip_left_open_when_image_fails:
  "fst (create_video_from_audio_and_image moviepy_v2 ''/tmp/a.wav'' ''/tmp/bad.png'' session) =
     None \<and>
   live session = [] \<and>
   live (snd (create_video_from_audio_and_image moviepy_v2 ''/tmp/a.wav'' ''/tmp/bad.png''
     session)) = [AudioFileClip ''/tmp/a.wav'' 10]"
  by (simp add: run_defs)

text \<open>
  C7. Provided \<^verbatim>\<open>uuid.uuid4()\<close> never returns the same value twice, two invocations
  in the same process (the second drawing its identifiers after the first) that return
  paths return distinct ones, each of the form temporary directory, \<^verbatim>\<open>video_\<close>,
  identifier, \<^verbatim>\<open>.mp4\<close>; their temporary audio file names differ as well.
\<close>

theorem invocations_get_distinct_output_paths:
  assumes fresh: "inj (uuid_source w1)"
    and same: "uuid_source w2 = uuid_source w1" "gettempdir w2 = gettempdir w1"
    and later: "uuid_drawn w1 + 2 \<le> uuid_drawn w2"
    and first: "fst (create_video_from_audio_and_image lib a1 i1 w1) = Some p1"
    and second: "fst (create_video_from_audio_and_image lib a2 i2 w2) = Some p2"
  shows "p1 = os_path_join (gettempdir w1)
                (''video_'' @ uuid_source w1 (uuid_drawn w1) @ ''.mp4'') \<and>
         p2 = os_path_join (gettempdir w1)
                (''video_'' @ uuid_source w1 (uuid_drawn w2) @ ''.mp4'') \<and>
         p1 \<noteq> p2 \<and>
         (\<exists>r1 r2.
            encodes (snd (create_video_from_audio_and_image lib a1 i1 w1)) =
              encodes w1 @ [r1] \<and>
            encodes (snd (create_video_from_audio_and_image lib a2 i2 w2)) =
              encodes w2 @ [r2] \<and>
            filename r1 = p1 \<and> filename r2 = p2 \<and>
            temp_audiofile r1 \<noteq> temp_audiofile r2)"
proof -
  from first obtain d1 sz1 fs1 where
    p1: "p1 = filename (encode_request a1 i1 d1 sz1 w1)" and
    s1: "snd (create_video_from_audio_and_image lib a1 i1 w1) =
       close (WithAudio (Resized (ImageClip i1 sz1 d1) 1080) (AudioFileClip a1 d1))
         (close (Resized (ImageClip i1 sz1 d1) 1080)
           (close (AudioFileClip a1 d1)
             ((composed a1 i1 d1 sz1 w1)
                \<lparr>files := fs1, encodes := encodes w1 @ [encode_request a1 i1 d1 sz1 w1]\<rparr>)))"
    by (rule create_Some)
  from second obtain d2 sz2 fs2 where
    p2: "p2 = filename (encode_request a2 i2 d2 sz2 w2)" and
    s2: "snd (create_video_from_audio_and_image lib a2 i2 w2) =
       close (WithAudio (Resized (ImageClip i2 sz2 d2) 1080) (AudioFileClip a2 d2))
         (close (Resized (ImageClip i2 sz2 d2) 1080)
           (close (AudioFileClip a2 d2)
             ((composed a2 i2 d2 sz2 w2)
                \<lparr>files := fs2, encodes := encodes w2 @ [encode_request a2 i2 d2 sz2 w2]\<rparr>)))"
    by (rule create_Some)
  have u: "uuid_source w1 (uuid_drawn w1) \<noteq> uuid_source w1 (uuid_drawn w2)"
    using fresh later by (auto dest: injD)
  have t: "uuid_source w1 (Suc (uuid_drawn w1)) \<noteq> uuid_source w1 (Suc (uuid_drawn w2))"
    using fresh later by (auto dest: injD)
  have q1: "p1 = os_path_join (gettempdir w1)
                (''video_'' @ uuid_source w1 (uuid_drawn w1) @ ''.mp4'')"
    using p1 by simp
  have q2: "p2 = os_path_join (gettempdir w1)
                (''video_'' @ uuid_source w1 (uuid_drawn w2) @ ''.mp4'')"
    using p2 same by simp
  have ne: "p1 \<noteq> p2"
    using u unfolding q1 q2 os_path_join_video by simp
  have e1: "encodes (snd (create_video_from_audio_and_image lib a1 i1 w1)) =
              encodes w1 @ [encode_request a1 i1 d1 sz1 w1]"
    by (simp add: s1)
  have e2: "encodes (snd (create_video_from_audio_and_image lib a2 i2 w2)) =
              encodes w2 @ [encode_request a2 i2 d2 sz2 w2]"
    by (simp add: s2)
  have tmp: "temp_audiofile (encode_request a1 i1 d1 sz1 w1) \<noteq>
             temp_audiofile (encode_request a2 i2 d2 sz2 w2)"
    using t same by simp
  have "\<exists>r1 r2.
            encodes (snd (create_video_from_audio_and_image lib a1 i1 w1)) =
              encodes w1 @ [r1] \<and>
            encodes (snd (create_video_from_audio_and_image lib a2 i2 w2)) =
              encodes w2 @ [r2] \<and>
            filename r1 = p1 \<and> filename r2 = p2 \<and>
            temp_audiofile r1 \<noteq> temp_audiofile r2"
    using e1 e2 p1 p2 tmp by blast
  with q1 q2 ne show ?thesis by blast
qed

text \<open>
  C7 on two invocations in a row with identical inputs.
\<close>

theorem invocations_get_distinct_output_paths_witness:
  "''/tmp/video_a.mp4'' =
     os_path_join (gettempdir session)
       (''video_'' @ uuid_source session (uuid_drawn session) @ ''.mp4'') \<and>
   ''/tmp/video_aaa.mp4'' =
     os_path_join (gettempdir session)
       (''video_'' @ uuid_source session
          (uuid_drawn (snd (create_video_from_audio_and_image moviepy_v2 ''/tmp/a.wav''
             ''/tmp/i.png'' session))) @ ''.mp4'') \<and>
   ''/tmp/video_a.mp4'' \<noteq> ''/tmp/video_aaa.mp4'' \<and>
   (\<exists>r1 r2.
      encodes (snd (create_video_from_audio_and_image moviepy_v2 ''/tmp/a.wav'' ''/tmp/i.png''
        session)) = encodes session @ [r1] \<and>
      encodes (snd (create_video_from_audio_and_image moviepy_v2 ''/tmp/a.wav'' ''/tmp/i.png''
        (snd (create_video_from_audio_and_image moviepy_v2 ''/tmp/a.wav'' ''/tmp/i.png''
           session)))) =
        encodes (snd (create_video_from_audio_and_image moviepy_v2 ''/tmp/a.wav''
          ''/tmp/i.png'' session)) @ [r2] \<and>
      filename r1 = ''/tmp/video_a.mp4'' \<and> filename r2 = ''/tmp/video_aaa.mp4'' \<and>
      temp_audiofile r1 \<noteq> temp_audiofile r2)"
proof -
  have fresh: "inj (uuid_source session)"
    by (simp add: session_def inj_def)
  have same: "uuid_source (snd (create_video_from_audio_and_image moviepy_v2 ''/tmp/a.wav''
      ''/tmp/i.png'' session)) = uuid_source session"
    "gettempdir (snd (create_video_from_audio_and_image moviepy_v2 ''/tmp/a.wav''
      ''/tmp/i.png'' session)) = gettempdir session"
    by (simp_all add: run_defs)
  have later: "uuid_drawn session + 2 \<le>
      uuid_drawn (snd (create_video_from_audio_and_image moviepy_v2 ''/tmp/a.wav''
        ''/tmp/i.png'' session))"
    by (simp add: run_defs)
  have first: "fst (create_video_from_audio_and_image moviepy_v2 ''/tmp/a.wav'' ''/tmp/i.png''
      session) = Some ''/tmp/video_a.mp4''"
    by (simp add: run_defs)
  have second: "fst (create_video_from_audio_and_image moviepy_v2 ''/tmp/a.wav'' ''/tmp/i.png''
      (snd (create_video_from_audio_and_image moviepy_v2 ''/tmp/a.wav'' ''/tmp/i.png''
         session))) = Some ''/tmp/video_aaa.mp4''"
    by (simp add: run_defs)
  show ?thesis
    by (rule invocations_get_distinct_output_paths [OF fresh same later first second])
qed

text \<open>
  C8, as stated, fails. When the encoder raises after creating its temporary audio file,
  the file \<^verbatim>\<open>temp-audio-aa.m4a\<close> is still there when the call returns, although
  \<^verbatim>\<open>remove_temp=True\<close> was passed: the source never removes it itself.
\<close>

theorem temp_audio_removed_on_failure_counterexample:
  "fst (create_video_from_audio_and_image moviepy_disk_full ''/tmp/a.wav'' ''/tmp/i.png''
     session) = None \<and>
   temp_audiofile (last (encodes (snd (create_video_from_audio_and_image moviepy_disk_full
     ''/tmp/a.wav'' ''/tmp/i.png'' session)))) = ''temp-audio-aa.m4a'' \<and>
   remove_temp (last (encodes (snd (create_video_from_audio_and_image moviepy_disk_full
     ''/tmp/a.wav'' ''/tmp/i.png'' session)))) \<and>
   files session ''temp-audio-aa.m4a'' = None \<and>
   files (snd (create_video_from_audio_and_image moviepy_disk_full ''/tmp/a.wav''
     ''/tmp/i.png'' session)) ''temp-audio-aa.m4a'' = Some (Other ''aac'')"
  by (simp add: run_defs)

text \<open>
  C8, amended. The call either leaves the encoder alone and the file system unchanged,
  or makes one encoder call with the temporary audio file named \<^verbatim>\<open>temp-audio-\<close>,
  a fresh identifier, \<^verbatim>\<open>.m4a\<close> and \<^verbatim>\<open>remove_temp=True\<close>, after which the file
  system is as the encoder left it; when the input image does not decode, the encoder is
  not called and no file is created.
\<close>

theorem temp_audio_removal_left_to_encoder:
  "(encodes (snd (create_video_from_audio_and_image lib audio_path image_path w)) = encodes w \<and>
    files (snd (create_video_from_audio_and_image lib audio_path image_path w)) = files w \<or>
    (\<exists>req.
       encodes (snd (create_video_from_audio_and_image lib audio_path image_path w)) =
         encodes w @ [req] \<and>
       temp_audiofile req = ''temp-audio-'' @ uuid_source w (Suc (uuid_drawn w)) @ ''.m4a'' \<and>
       remove_temp req \<and>
       files (snd (create_video_from_audio_and_image lib audio_path image_path w)) =
         snd (lib_write_videofile lib req (files w)))) \<and>
   (lib_ImageClip lib (files w) image_path = Inl e \<longrightarrow>
      encodes (snd (create_video_from_audio_and_image lib audio_path image_path w)) =
        encodes w \<and>
      files (snd (create_video_from_audio_and_image lib audio_path image_path w)) = files w)"
proof (rule conjI)
  show "encodes (snd (create_video_from_audio_and_image lib audio_path image_path w)) =
          encodes w \<and>
        files (snd (create_video_from_audio_and_image lib audio_path image_path w)) = files w \<or>
        (\<exists>req.
           encodes (snd (create_video_from_audio_and_image lib audio_path image_path w)) =
             encodes w @ [req] \<and>
           temp_audiofile req =
             ''temp-audio-'' @ uuid_source w (Suc (uuid_drawn w)) @ ''.m4a'' \<and>
           remove_temp req \<and>
           files (snd (create_video_from_audio_and_image lib audio_path image_path w)) =
             snd (lib_write_videofile lib req (files w)))"
  proof (cases "fst (create_video_from_audio_and_image lib audio_path image_path w)")
    case None
    then show ?thesis
    proof (cases rule: create_None)
      case (before e)
      then show ?thesis by simp
    next
      case (encoder e d sz fs)
      have "temp_audiofile (encode_request audio_path image_path d sz w) =
              ''temp-audio-'' @ uuid_source w (Suc (uuid_drawn w)) @ ''.m4a'' \<and>
            remove_temp (encode_request audio_path image_path d sz w)"
        by simp
      with encoder(4,5,6) show ?thesis
        by (intro disjI2 exI [of _ "encode_request audio_path image_path d sz w"]) simp
    qed
  next
    case (Some p)
    then obtain d sz fs where
      W: "lib_write_videofile lib (encode_request audio_path image_path d sz w) (files w) =
            (None, fs)" and
      s: "snd (create_video_from_audio_and_image lib audio_path image_path w) =
       close (WithAudio (Resized (ImageClip image_path sz d) 1080) (AudioFileClip audio_path d))
         (close (Resized (ImageClip image_path sz d) 1080)
           (close (AudioFileClip audio_path d)
             ((composed audio_path image_path d sz w)
                \<lparr>files := fs,
                  encodes := encodes w @ [encode_request audio_path image_path d sz w]\<rparr>)))"
      by (rule create_Some)
    have "temp_audiofile (encode_request audio_path image_path d sz w) =
            ''temp-audio-'' @ uuid_source w (Suc (uuid_drawn w)) @ ''.m4a'' \<and>
          remove_temp (encode_request audio_path image_path d sz w)"
      by simp
    with W show ?thesis
      by (intro disjI2 exI [of _ "encode_request audio_path image_path d sz w"])
         (simp add: s)
  qed
next
  show "lib_ImageClip lib (files w) image_path = Inl e \<longrightarrow>
      encodes (snd (create_video_from_audio_and_image lib audio_path image_path w)) =
        encodes w \<and>
      files (snd (create_video_from_audio_and_image lib audio_path image_path w)) = files w"
  proof
    assume I: "lib_ImageClip lib (files w) image_path = Inl e"
    show "encodes (snd (create_video_from_audio_and_image lib audio_path image_path w)) =
        encodes w \<and>
      files (snd (create_video_from_audio_and_image lib audio_path image_path w)) = files w"
    proof (cases "lib_AudioFileClip lib (files w) audio_path")
      case (Inl e')
      then show ?thesis
        by (simp add: create_video_from_audio_and_image_def try_body_audio_raises)
    next
      case (Inr d)
      then show ?thesis using I
        by (simp add: create_video_from_audio_and_image_def try_body_image_raises)
    qed
  qed
qed

text \<open>
  The amended C8 on an image file that is not an image.
\<close>

theorem temp_audio_removal_left_to_encoder_witness:
  "lib_ImageClip moviepy_v2 (files session) ''/tmp/bad.png'' =
     Inl (OtherError ''cannot identify image file'') \<and>
   encodes (snd (create_video_from_audio_and_image moviepy_v2 ''/tmp/a.wav'' ''/tmp/bad.png''
     session)) = encodes session \<and>
   files (snd (create_video_from_audio_and_image moviepy_v2 ''/tmp/a.wav'' ''/tmp/bad.png''
     session)) = files session"
proof -
  have h: "lib_ImageClip moviepy_v2 (files session) ''/tmp/bad.png'' =
             Inl (OtherError ''cannot identify image file'')"
    by (simp add: moviepy_v2_def session_def decode_image_def)
  show ?thesis
    using h temp_audio_removal_left_to_encoder
      [of moviepy_v2 "''/tmp/a.wav''" "''/tmp/bad.png''" session
          "OtherError ''cannot identify image file''"]
    by blast
qed

text \<open>
  C9. Provided the encoder writes only to its output file and its temporary audio file,
  leaves the output file in place when it succeeds, and the two generated names are not
  the input paths, the call leaves the files at \<open>audio_path\<close> and \<open>image_path\<close>
  as they were, and on success the output file exists at the returned path.
\<close>

theorem inputs_untouched_output_kept:
  assumes targets: "\<forall>req fs q. q \<noteq> filename req \<and> q \<noteq> temp_audiofile req \<longrightarrow>
                      snd (lib_write_videofile lib req fs) q = fs q"
    and written: "\<forall>req fs. fst (lib_write_videofile lib req fs) = None \<longrightarrow>
                      snd (lib_write_videofile lib req fs) (filename req) \<noteq> None"
    and fresh_audio:
      "audio_path \<noteq> os_path_join (gettempdir w)
                       (''video_'' @ uuid_source w (uuid_drawn w) @ ''.mp4'')"
      "audio_path \<noteq> ''temp-audio-'' @ uuid_source w (Suc (uuid_drawn w)) @ ''.m4a''"
    and fresh_image:
      "image_path \<noteq> os_path_join (gettempdir w)
                       (''video_'' @ uuid_source w (uuid_drawn w) @ ''.mp4'')"
      "image_path \<noteq> ''temp-audio-'' @ uuid_source w (Suc (uuid_drawn w)) @ ''.m4a''"
  shows "files (snd (create_video_from_audio_and_image lib audio_path image_path w)) audio_path =
           files w audio_path \<and>
         files (snd (create_video_from_audio_and_image lib audio_path image_path w)) image_path =
           files w image_path \<and>
         (fst (create_video_from_audio_and_image lib audio_path image_path w) = Some p \<longrightarrow>
            files (snd (create_video_from_audio_and_image lib audio_path image_path w)) p \<noteq>
              None)"
proof (cases "fst (create_video_from_audio_and_image lib audio_path image_path w)")
  case None
  then show ?thesis
  proof (cases rule: create_None)
    case (before e)
    with None show ?thesis by simp
  next
    case (encoder e d sz fs)
    have fs: "fs = snd (lib_write_videofile lib
                (encode_request audio_path image_path d sz w) (files w))"
      using encoder(4) by simp
    have "fs audio_path = files w audio_path" "fs image_path = files w image_path"
      unfolding fs using targets fresh_audio fresh_image by simp_all
    with None encoder(5) show ?thesis by simp
  qed
next
  case (Some p')
  then obtain d sz fs where
    W: "lib_write_videofile lib (encode_request audio_path image_path d sz w) (files w) =
          (None, fs)" and
    p': "p' = filename (encode_request audio_path image_path d sz w)" and
    s: "snd (create_video_from_audio_and_image lib audio_path image_path w) =
       close (WithAudio (Resized (ImageClip image_path sz d) 1080) (AudioFileClip audio_path d))
         (close (Resized (ImageClip image_path sz d) 1080)
           (close (AudioFileClip audio_path d)
             ((composed audio_path image_path d sz w)
                \<lparr>files := fs,
                  encodes := encodes w @ [encode_request audio_path image_path d sz w]\<rparr>)))"
    by (rule create_Some)
  have f: "files (snd (create_video_from_audio_and_image lib audio_path image_path w)) = fs"
    by (simp add: s)
  have fs: "fs = snd (lib_write_videofile lib
              (encode_request audio_path image_path d sz w) (files w))"
    using W by simp
  have keep: "fs audio_path = files w audio_path" "fs image_path = files w image_path"
    unfolding fs using targets fresh_audio fresh_image by simp_all
  have "fst (lib_write_videofile lib (encode_request audio_path image_path d sz w) (files w)) =
          None"
    using W by simp
  with written have "snd (lib_write_videofile lib
      (encode_request audio_path image_path d sz w) (files w))
      (filename (encode_request audio_path image_path d sz w)) \<noteq> None"
    by blast
  then have "fs p' \<noteq> None" using fs p' by simp
  with keep f Some show ?thesis by auto
qed

text \<open>
  C9 on the sample session.
\<close>

theorem inputs_untouched_output_kept_witness:
  "files (snd (create_video_from_audio_and_image moviepy_v2 ''/tmp/a.wav'' ''/tmp/i.png''
     session)) ''/tmp/a.wav'' = Some (Audio 10) \<and>
   files (snd (create_video_from_audio_and_image moviepy_v2 ''/tmp/a.wav'' ''/tmp/i.png''
     session)) ''/tmp/i.png'' = Some (Image 800 600) \<and>
   fst (create_video_from_audio_and_image moviepy_v2 ''/tmp/a.wav'' ''/tmp/i.png'' session) =
     Some ''/tmp/video_a.mp4'' \<and>
   files (snd (create_video_from_audio_and_image moviepy_v2 ''/tmp/a.wav'' ''/tmp/i.png''
     session)) ''/tmp/video_a.mp4'' \<noteq> None"
proof -
  have targets: "\<forall>req fs q. q \<noteq> filename req \<and> q \<noteq> temp_audiofile req \<longrightarrow>
                   snd (lib_write_videofile moviepy_v2 req fs) q = fs q"
    by (simp add: moviepy_v2_def encode_ok_def)
  have written: "\<forall>req fs. fst (lib_write_videofile moviepy_v2 req fs) = None \<longrightarrow>
                   snd (lib_write_videofile moviepy_v2 req fs) (filename req) \<noteq> None"
    by (simp add: moviepy_v2_def encode_ok_def)
  have fresh_audio:
      "''/tmp/a.wav'' \<noteq> os_path_join (gettempdir session)
          (''video_'' @ uuid_source session (uuid_drawn session) @ ''.mp4'')"
      "''/tmp/a.wav'' \<noteq>
          ''temp-audio-'' @ uuid_source session (Suc (uuid_drawn session)) @ ''.m4a''"
    by (simp_all add: session_def os_path_join_def)
  have fresh_image:
      "''/tmp/i.png'' \<noteq> os_path_join (gettempdir session)
          (''video_'' @ uuid_source session (uuid_drawn session) @ ''.mp4'')"
      "''/tmp/i.png'' \<noteq>
          ''temp-audio-'' @ uuid_source session (Suc (uuid_drawn session)) @ ''.m4a''"
    by (simp_all add: session_def os_path_join_def)
  have before: "files session ''/tmp/a.wav'' = Some (Audio 10)"
    "files session ''/tmp/i.png'' = Some (Image 800 600)"
    by (simp_all add: session_def)
  have ok: "fst (create_video_from_audio_and_image moviepy_v2 ''/tmp/a.wav'' ''/tmp/i.png''
              session) = Some ''/tmp/video_a.mp4''"
    by (simp add: run_defs)
  show ?thesis
    using inputs_untouched_output_kept
      [OF targets written fresh_audio fresh_image, of "''/tmp/video_a.mp4''"] before ok
    by simp
qed



end
